theory Spec2Isabelle
  imports Complex_Main "HOL-Library.Sublist"
begin

section \<open>Python floats\<close>

text \<open>
  Every number the script handles (the four percentages and the hemoglobin level read
  from the number widgets, the coordinates, the class probabilities) is a Python float,
  an IEEE-754 binary64 number. A finite float is identified with its exact rational
  value. NaN, the infinities and the sign of zero are not represented: the number
  widgets bound every input to a finite range, and the class probabilities lie
  between 0 and 1. Rounding therefore never overflows here, and overflow to infinity
  is not modelled.

  Comparison of floats is comparison of their values. The three float operations the
  script uses beyond comparison are written out below: multiplication (rounded to the
  nearest binary64 number, ties to even), the format \<^verbatim>\<open>.1f\<close> and \<^verbatim>\<open>str\<close>
  (the shortest decimal string that reads back as the same float).
\<close>

type_synonym pyfloat = rat

definition round_half_even :: "rat \<Rightarrow> int" where
  \<comment> \<open>the integer nearest to \<open>x\<close>, ties to the even one\<close>
  "round_half_even x =
     (let fl = \<lfloor>x\<rfloor>; r = x - of_int fl
      in if r < 1 / 2 then fl
         else if 1 / 2 < r then fl + 1
         else if even fl then fl else fl + 1)"

fun base_length :: "nat \<Rightarrow> nat \<Rightarrow> nat" where
  \<comment> \<open>the number of digits of \<open>n\<close> in base \<open>b\<close>\<close>
  "base_length b n = (if n = 0 \<or> b < 2 then 0 else Suc (base_length b (n div b)))"

declare base_length.simps [simp del]

definition floor_log :: "nat \<Rightarrow> rat \<Rightarrow> int" where
  \<comment> \<open>the integer \<open>e\<close> with \<open>b ^ e \<le> x < b ^ (e + 1)\<close>, for positive \<open>x\<close>\<close>
  "floor_log b x =
     (if 1 \<le> x then int (base_length b (nat \<lfloor>x\<rfloor>)) - 1
      else - int (base_length b (nat (\<lceil>1 / x\<rceil> - 1))))"

definition to_double :: "rat \<Rightarrow> pyfloat" where
  \<comment> \<open>the binary64 number nearest to \<open>x\<close>: 53 significant bits, least exponent \<open>-1074\<close>\<close>
  "to_double x =
     (if x = 0 then 0
      else let u = max (floor_log 2 \<bar>x\<bar> - 52) (- 1074)
           in sgn x * of_int (round_half_even (\<bar>x\<bar> / 2 powi u)) * 2 powi u)"

definition fmul :: "pyfloat \<Rightarrow> pyfloat \<Rightarrow> pyfloat" where
  \<comment> \<open>\<^verbatim>\<open>x * y\<close> on floats\<close>
  "fmul x y = to_double (x * y)"

fun digits_of :: "nat \<Rightarrow> string" where
  "digits_of n =
     (if n < 10 then [''0123456789'' ! n]
      else digits_of (n div 10) @ [''0123456789'' ! (n mod 10)])"

declare digits_of.simps [simp del]

definition format_1f :: "pyfloat \<Rightarrow> string" where
  \<comment> \<open>\<^verbatim>\<open>f'{x:.1f}'\<close>: the exact value rounded to one decimal place, ties to even\<close>
  "format_1f x =
     (let t = nat (round_half_even (\<bar>x\<bar> * 10))
      in (if x < 0 then ''-'' else '''') @ digits_of (t div 10) @ ''.'' @ digits_of (t mod 10))"

fun strip_zeros :: "nat \<Rightarrow> nat" where
  "strip_zeros n = (if n \<noteq> 0 \<and> n mod 10 = 0 then strip_zeros (n div 10) else n)"

declare strip_zeros.simps [simp del]

definition reads_back :: "pyfloat \<Rightarrow> int \<Rightarrow> int \<Rightarrow> bool" where
  \<comment> \<open>the decimal \<open>c * 10 ^ k\<close>, read as a float, is \<open>x\<close>\<close>
  "reads_back x c k = (to_double (of_int c * 10 powi k) = x)"

definition candidate :: "pyfloat \<Rightarrow> int \<Rightarrow> int \<Rightarrow> int option" where
  \<comment> \<open>of the two multiples of \<open>10 ^ k\<close> around \<open>x\<close>, one that reads back as \<open>x\<close> (the
      nearer one if both do, the even one if they are equally near); with 17 digits
      the nearer one in any case\<close>
  "candidate x k n =
     (let lo = \<lfloor>x / 10 powi k\<rfloor>;
          hi = lo + 1;
          d_lo = x - of_int lo * 10 powi k;
          d_hi = of_int hi * 10 powi k - x
      in if reads_back x lo k \<and> reads_back x hi k
         then (if d_lo < d_hi then Some lo else if d_hi < d_lo then Some hi
               else if even lo then Some lo else Some hi)
         else if reads_back x lo k then Some lo
         else if reads_back x hi k then Some hi
         else if n = 17 then Some (if d_hi < d_lo then hi else lo)
         else None)"

fun shortest :: "pyfloat \<Rightarrow> int \<Rightarrow> nat \<Rightarrow> int \<Rightarrow> nat \<times> int" where
  \<comment> \<open>tries \<open>n\<close>, \<open>n + 1\<close>, ... significant digits; 17 always suffice for a binary64
      number; the result \<open>(c, k)\<close> stands for \<open>c * 10 ^ k\<close>\<close>
  "shortest x e10 0 n = (0, 0)"
| "shortest x e10 (Suc fuel) n =
     (case candidate x (e10 - n + 1) n of
        Some c \<Rightarrow> (nat c, e10 - n + 1)
      | None \<Rightarrow> shortest x e10 fuel (n + 1))"

definition repr_digits :: "pyfloat \<Rightarrow> string \<times> int" where
  \<comment> \<open>the significant digits of a positive float and the position of its decimal point:
      the value is \<open>0.d\<^sub>1d\<^sub>2... * 10 ^ decpt\<close>\<close>
  "repr_digits x =
     (let (c, k) = shortest x (floor_log 10 x) 17 1
      in (digits_of (strip_zeros c), int (length (digits_of c)) + k))"

definition float_repr :: "pyfloat \<Rightarrow> string" where
  \<comment> \<open>\<^verbatim>\<open>str(x)\<close>, which is what \<^verbatim>\<open>f'{x}'\<close> writes for a float\<close>
  "float_repr x =
     (if x = 0 then ''0.0''
      else let (ds, decpt) = repr_digits \<bar>x\<bar>;
               n = int (length ds);
               sign = (if x < 0 then ''-'' else '''')
           in if decpt \<le> - 4 \<or> 16 < decpt
              then sign @ [hd ds] @ (if tl ds = [] then [] else ''.'' @ tl ds) @ ''e''
                   @ (if decpt - 1 < 0 then ''-'' else ''+'')
                   @ (if \<bar>decpt - 1\<bar> < 10 then ''0'' else '''') @ digits_of (nat \<bar>decpt - 1\<bar>)
              else if decpt \<le> 0 then sign @ ''0.'' @ replicate (nat (- decpt)) CHR ''0'' @ ds
              else if decpt < n then sign @ take (nat decpt) ds @ ''.'' @ drop (nat decpt) ds
              else sign @ ds @ replicate (nat (decpt - n)) CHR ''0'' @ ''.0'')"

section \<open>Data\<close>

text \<open>
  Python strings are modelled as byte strings in UTF-8. The pictographs of the user
  interface are spelled out as their bytes.
\<close>

abbreviation NL :: char where
  "NL \<equiv> CHR 0x0A"

definition round_pushpin :: string where
  "round_pushpin = [CHR 0xF0, CHR 0x9F, CHR 0x93, CHR 0x8D]"

definition memo :: string where
  "memo = [CHR 0xF0, CHR 0x9F, CHR 0x93, CHR 0x9D]"

definition drop_of_blood :: string where
  "drop_of_blood = [CHR 0xF0, CHR 0x9F, CHR 0xA9, CHR 0xB8]"

definition green_circle :: string where
  "green_circle = [CHR 0xF0, CHR 0x9F, CHR 0x9F, CHR 0xA2]"

definition light_bulb :: string where
  "light_bulb = [CHR 0xF0, CHR 0x9F, CHR 0x92, CHR 0xA1]"

definition down_arrow :: string where
  "down_arrow = [CHR 0xE2, CHR 0xAC, CHR 0x87, CHR 0xEF, CHR 0xB8, CHR 0x8F]"

definition world_map :: string where
  "world_map = [CHR 0xF0, CHR 0x9F, CHR 0x97, CHR 0xBA, CHR 0xEF, CHR 0xB8, CHR 0x8F]"

text \<open>
  The values of the input widgets in one run of the script. The text box is read only
  in the mode \<open>Country/City\<close>, the two coordinate boxes only in the other mode.
\<close>

datatype sex_choice = M | F

datatype location_mode_choice = CountryCity | LatitudeLongitude

record form =
  sex :: sex_choice
  red_pixel :: pyfloat
  hb :: pyfloat
  green_pixel :: pyfloat
  blue_pixel :: pyfloat
  location_mode :: location_mode_choice
  location_text_input :: string
  latitude_input :: pyfloat
  longitude_input :: pyfloat
  predict_btn :: bool

text \<open>A data frame of one row: the column names with the row's values, in column order.\<close>

datatype cell = IntCell int | FloatCell pyfloat

type_synonym data_frame = "(string \<times> cell) list"

text \<open>
  The collaborators. An exception is kept as its message; it is of class \<^verbatim>\<open>Exception\<close>,
  which is what the script catches around the geocoder. The geocoder raises, finds
  nothing, or returns a location. \<open>predict\<close> and \<open>predict_proba\<close> stand for the call
  followed by \<^verbatim>\<open>[0]\<close>: the prediction for the single row, and the row of class
  probabilities; \<open>predict_proba\<close> is \<open>None\<close> when the loaded object has no such attribute.
\<close>

datatype py_exception = PyException string

fun exception_str :: "py_exception \<Rightarrow> string" where
  "exception_str (PyException msg) = msg"

datatype geocode_result =
    GeocodeRaises py_exception
  | GeocodeNone
  | GeocodeLocation pyfloat pyfloat

record classifier =
  predict :: "data_frame \<Rightarrow> py_exception + int"
  predict_proba :: "(data_frame \<Rightarrow> py_exception + pyfloat list) option"

record environment =
  geocode :: "string \<Rightarrow> geocode_result"
  load :: "string \<Rightarrow> py_exception + classifier"

text \<open>
  What a run does to the outside, in order: what it shows (\<^verbatim>\<open>st.markdown\<close>,
  \<^verbatim>\<open>st.warning\<close>, \<^verbatim>\<open>st.download_button\<close> with its label, data, file name and type,
  \<^verbatim>\<open>st.map\<close> with its one point) and what it calls (the geocoder with a place name,
  \<^verbatim>\<open>joblib.load\<close> with a path, the classifier's two methods with a frame).
\<close>

datatype event =
    Markdown string
  | Warning string
  | Geocode string
  | Load string
  | Predict data_frame
  | PredictProba data_frame
  | DownloadButton string string string string
  | MapPoint pyfloat pyfloat

text \<open>The variables the prediction block binds, and the outcome of a whole run.\<close>

record prediction_vars =
  v_prediction :: int
  v_confidence :: "pyfloat option"
  v_tips :: "string list"
  v_learn_more :: string
  v_report :: string

record script_run =
  run_events :: "event list"
  run_latitude :: "pyfloat option"
  run_longitude :: "pyfloat option"
  run_result :: "py_exception + prediction_vars option"

section \<open>The script\<close>

text \<open>
  The model covers the script from the location input to the footer. The theme, the
  welcome message, the sidebar and the image upload before it read and bind none of
  the variables used here. Each definition below is one stretch of the script; the
  widgets' values come from the \<open>form\<close>, the calls to the outside are recorded as events.
\<close>

definition MODEL_PATH :: string where
  "MODEL_PATH = ''anemia_model.pkl''"

definition sex_str :: "sex_choice \<Rightarrow> string" where
  "sex_str s = (case s of M \<Rightarrow> ''M'' | F \<Rightarrow> ''F'')"

subsection \<open>Location input\<close>

definition location_input ::
  "environment \<Rightarrow> form \<Rightarrow> event list \<times> pyfloat option \<times> pyfloat option \<times> string" where
  "location_input env f =
     (if location_mode f = CountryCity then
        (let location_text = location_text_input f
         in if location_text \<noteq> [] then
              (case geocode env location_text of
                 GeocodeLocation la lo \<Rightarrow>
                   ([Geocode location_text], Some la, Some lo, location_text)
               | GeocodeNone \<Rightarrow>
                   ([Geocode location_text,
                     Warning ''Could not find the location. Please check your input.''],
                    None, None, location_text)
               | GeocodeRaises e \<Rightarrow>
                   ([Geocode location_text,
                     Warning (''Geocoding error: '' @ exception_str e)],
                    None, None, location_text))
            else ([], None, None, location_text))
      else ([], Some (latitude_input f), Some (longitude_input f), []))"

subsection \<open>Encoding and the classifier's input\<close>

definition sex_encoded :: "form \<Rightarrow> int" where
  "sex_encoded f = (if sex f = M then 0 else 1)"

definition input_data :: "form \<Rightarrow> data_frame" where
  "input_data f =
     [(''Sex'', IntCell (sex_encoded f)),
      (''%Red Pixel'', FloatCell (red_pixel f)),
      (''%Green pixel'', FloatCell (green_pixel f)),
      (''%Blue pixel'', FloatCell (blue_pixel f)),
      (''Hb'', FloatCell (hb f))]"

subsection \<open>Input summary\<close>

definition input_summary ::
  "form \<Rightarrow> pyfloat option \<Rightarrow> pyfloat option \<Rightarrow> string \<Rightarrow> event list" where
  \<open>input_summary f latitude longitude location_text =
     [Markdown (''<div class="user-summary"><b>'' @ memo @ '' Your Input Summary:</b><br>''
        @ ''Sex: <b>'' @ sex_str (sex f) @ ''</b> | %Red Pixel: <b>'' @ float_repr (red_pixel f)
        @ ''</b> | %Green pixel: <b>'' @ float_repr (green_pixel f)
        @ ''</b> | %Blue pixel: <b>'' @ float_repr (blue_pixel f)
        @ ''</b> | Hb: <b>'' @ float_repr (hb f) @ ''</b></div>'')]
     @ (case (latitude, longitude) of
          (Some la, Some lo) \<Rightarrow>
            [Markdown (''<b>Location:</b> ''
               @ (if location_mode f = CountryCity then location_text
                  else ''('' @ float_repr la @ '', '' @ float_repr lo @ '')''))]
        | _ \<Rightarrow> [])\<close>

subsection \<open>Prediction and confidence\<close>

definition np_max :: "pyfloat list \<Rightarrow> py_exception + pyfloat" where
  "np_max proba =
     (case proba of
        [] \<Rightarrow> Inl (PyException
                ''zero-size array to reduction operation maximum which has no identity'')
      | p # ps \<Rightarrow> Inr (fold max ps p))"

definition confidence_of ::
  "classifier \<Rightarrow> data_frame \<Rightarrow> event list \<times> (py_exception + pyfloat option)" where
  "confidence_of clf data =
     (case predict_proba clf of
        None \<Rightarrow> ([], Inr None)
      | Some pp \<Rightarrow>
          (case pp data of
             Inl e \<Rightarrow> ([PredictProba data], Inl e)
           | Inr proba \<Rightarrow>
               (case np_max proba of
                  Inl e \<Rightarrow> ([PredictProba data], Inl e)
                | Inr c \<Rightarrow> ([PredictProba data], Inr (Some c)))))"

subsection \<open>Health tips\<close>

definition health_tips :: "form \<Rightarrow> int \<Rightarrow> string list \<times> string" where
  "health_tips f prediction =
     (let tips = [];
          tips = (if hb f < 12
                  then tips @ [''Increase iron-rich foods (spinach, beans, red meat).'']
                  else tips);
          tips = (if green_pixel f > 40
                  then tips @ [''Stay hydrated; high green pixel may indicate plasma presence.'']
                  else tips)
      in if prediction = 1
         then (tips @ [''Consult your doctor for supplements if needed.'']
                 @ [''Get regular checkups.''],
               ''[Learn more about anaemia (WHO)](https://www.who.int/news-room/fact-sheets/detail/anaemia)'')
         else (tips @ [''Maintain a balanced diet.'']
                 @ [''Exercise regularly.'']
                 @ [''Get enough sleep.'']
                 @ [''Have regular health checkups.''],
               ''[General health tips (Mayo Clinic)](https://www.mayoclinic.org/healthy-lifestyle)''))"

subsection \<open>Feedback and the list of tips\<close>

definition feedback :: "int \<Rightarrow> pyfloat option \<Rightarrow> event list" where
  \<open>feedback prediction confidence =
     (if prediction = 1 then
        [Markdown (''<span style="font-size:1.5em; color:#B22222;">'' @ drop_of_blood
           @ '' <b>Prediction: Anaemic</b></span>'')]
        @ (case confidence of
             Some c \<Rightarrow>
               [Markdown (''<span style="color:#B22222;">Confidence: <b>''
                  @ format_1f (fmul c 100) @ ''%</b></span>'')]
           | None \<Rightarrow> [])
        @ [Markdown ''<span style="color:#B22222;font-size:1.2em;">The patient is likely <b>Anaemic</b>. Please consult a healthcare professional for further advice.</span>'']
      else
        [Markdown (''<span style="font-size:1.5em; color:#228B22;">'' @ green_circle
           @ '' <b>Prediction: Not Anaemic</b></span>'')]
        @ (case confidence of
             Some c \<Rightarrow>
               [Markdown (''<span style="color:#228B22;">Confidence: <b>''
                  @ format_1f (fmul c 100) @ ''%</b></span>'')]
           | None \<Rightarrow> [])
        @ [Markdown ''<span style="color:#228B22;font-size:1.2em;">The patient is likely <b>Not Anaemic</b>. Keep up the healthy habits!</span>''])\<close>

definition tips_section :: "string list \<Rightarrow> string \<Rightarrow> event list" where
  \<open>tips_section tips learn_more =
     [Markdown (''<div class="health-tips"><b>'' @ light_bulb
        @ '' Personalized Health Tips:</b><ul>''
        @ concat (map (\<lambda>tip. ''<li>'' @ tip @ ''</li>'') tips)
        @ ''</ul>'' @ learn_more @ ''</div>'')]\<close>

subsection \<open>The downloadable report\<close>

text \<open>The report is a text buffer; each write appends to it.\<close>

definition report_write :: "string \<Rightarrow> string \<Rightarrow> string" where
  "report_write buffer s = buffer @ s"

fun write_tips :: "string \<Rightarrow> string list \<Rightarrow> string" where
  "write_tips buffer [] = buffer"
| "write_tips buffer (tip # rest) = write_tips (report_write buffer (''- '' @ tip @ [NL])) rest"

definition report_text ::
  "form \<Rightarrow> int \<Rightarrow> pyfloat option \<Rightarrow> string list \<Rightarrow> string \<Rightarrow> string" where
  "report_text f prediction confidence tips learn_more =
     (let r = [];
          r = report_write r (''Anaemia Prediction Report'' @ [NL]);
          r = report_write r (''========================'' @ [NL]);
          r = report_write r (''Sex: '' @ sex_str (sex f) @ [NL]);
          r = report_write r (''%Red Pixel: '' @ float_repr (red_pixel f) @ [NL]);
          r = report_write r (''%Green pixel: '' @ float_repr (green_pixel f) @ [NL]);
          r = report_write r (''%Blue pixel: '' @ float_repr (blue_pixel f) @ [NL]);
          r = report_write r (''Hemoglobin (Hb): '' @ float_repr (hb f) @ [NL]);
          r = report_write r (''Prediction: ''
                @ (if prediction = 1 then ''Anaemic'' else ''Not Anaemic'') @ [NL]);
          r = (case confidence of
                 Some c \<Rightarrow> report_write r (''Confidence: '' @ format_1f (fmul c 100) @ ''%'' @ [NL])
               | None \<Rightarrow> r);
          r = report_write r ([NL] @ ''Health Tips:'' @ [NL]);
          r = write_tips r tips;
          r = report_write r ([NL] @ learn_more @ [NL])
      in r)"

definition download_report :: "string \<Rightarrow> event list" where
  "download_report data =
     [DownloadButton (down_arrow @ '' Download Report'') data ''anaemia_report.txt'' ''text/plain'']"

subsection \<open>The map\<close>

definition map_card :: "pyfloat option \<Rightarrow> pyfloat option \<Rightarrow> event list" where
  \<open>map_card latitude longitude =
     (case (latitude, longitude) of
        (Some la, Some lo) \<Rightarrow>
          [Markdown ''<div class="map-card">'',
           Markdown (''#### '' @ world_map @ '' Patient Location Map''),
           Markdown ''<span style="color:#1e88e5;">This map shows the location you entered for the patient. You can use this to visualize where the prediction was made.</span>'',
           MapPoint la lo,
           Markdown ''</div>'']
      | _ \<Rightarrow> [])\<close>

subsection \<open>The prediction block and the whole run\<close>

definition predict_block ::
  "environment \<Rightarrow> form \<Rightarrow> pyfloat option \<Rightarrow> pyfloat option
     \<Rightarrow> event list \<times> (py_exception + prediction_vars)" where
  "predict_block env f latitude longitude =
     (case load env MODEL_PATH of
        Inl e \<Rightarrow> ([Load MODEL_PATH], Inl e)
      | Inr clf \<Rightarrow>
          (case predict clf (input_data f) of
             Inl e \<Rightarrow> ([Load MODEL_PATH, Predict (input_data f)], Inl e)
           | Inr prediction \<Rightarrow>
               (case confidence_of clf (input_data f) of
                  (calls, Inl e) \<Rightarrow> ([Load MODEL_PATH, Predict (input_data f)] @ calls, Inl e)
                | (calls, Inr confidence) \<Rightarrow>
                    (let (tips, learn_more) = health_tips f prediction;
                         report = report_text f prediction confidence tips learn_more
                     in ([Load MODEL_PATH, Predict (input_data f)] @ calls
                           @ feedback prediction confidence
                           @ tips_section tips learn_more
                           @ download_report report
                           @ map_card latitude longitude,
                         Inr \<lparr>v_prediction = prediction, v_confidence = confidence,
                              v_tips = tips, v_learn_more = learn_more,
                              v_report = report\<rparr>)))))"

definition footer :: "event list" where
  \<open>footer = [Markdown ''<div class="footer">Made with by Brian Michael | Powered by Streamlit</div>'']\<close>

text \<open>
  A run of the script. An exception in the prediction block ends the run there: the
  result is the exception and the footer is not reached. Without the button the block is
  skipped and the result is \<open>Inr None\<close>.
\<close>

definition app :: "environment \<Rightarrow> form \<Rightarrow> script_run" where
  "app env f =
     (let (lookup, latitude, longitude, location_text) = location_input env f;
          shown = [Markdown ''---'', Markdown (''### '' @ round_pushpin @ '' Patient Location'')]
                  @ lookup @ input_summary f latitude longitude location_text
      in if predict_btn f then
           (case predict_block env f latitude longitude of
              (done, Inl e) \<Rightarrow>
                \<lparr>run_events = shown @ done, run_latitude = latitude,
                 run_longitude = longitude, run_result = Inl e\<rparr>
            | (done, Inr vars) \<Rightarrow>
                \<lparr>run_events = shown @ done @ footer, run_latitude = latitude,
                 run_longitude = longitude, run_result = Inr (Some vars)\<rparr>)
         else \<lparr>run_events = shown @ footer, run_latitude = latitude,
               run_longitude = longitude, run_result = Inr None\<rparr>)"

section \<open>Reading the events of a run\<close>

fun is_classifier_call :: "event \<Rightarrow> bool" where
  "is_classifier_call (Predict data) = True"
| "is_classifier_call (PredictProba data) = True"
| "is_classifier_call e = False"

fun is_warning :: "event \<Rightarrow> bool" where
  "is_warning (Warning msg) = True"
| "is_warning e = False"

fun is_download :: "event \<Rightarrow> bool" where
  "is_download (DownloadButton label data file_name mime) = True"
| "is_download e = False"


section \<open>Example inputs\<close>

text \<open>
  The inputs of the specification's example: the form with its default values and a
  classifier that answers 1 with the probabilities 0.18 and 0.82. The second classifier
  answers 0 and has no \<open>predict_proba\<close>. The geocoder of the first environment finds
  nothing, the geocoder of the second one raises.
\<close>

definition example_form :: form where
  "example_form =
     \<lparr>sex = F, red_pixel = 45, hb = 10, green_pixel = 30, blue_pixel = 25,
      location_mode = CountryCity, location_text_input = ''Nairobi, Kenya'',
      latitude_input = 0, longitude_input = 0, predict_btn = True\<rparr>"

definition example_classifier :: classifier where
  "example_classifier =
     \<lparr>predict = (\<lambda>data. Inr 1),
      predict_proba = Some (\<lambda>data. Inr [to_double (18 / 100), to_double (82 / 100)])\<rparr>"

definition plain_classifier :: classifier where
  "plain_classifier = \<lparr>predict = (\<lambda>data. Inr 0), predict_proba = None\<rparr>"

definition example_environment :: "classifier \<Rightarrow> environment" where
  "example_environment clf = \<lparr>geocode = (\<lambda>place. GeocodeNone), load = (\<lambda>path. Inr clf)\<rparr>"

definition failing_environment :: "classifier \<Rightarrow> environment" where
  "failing_environment clf =
     \<lparr>geocode = (\<lambda>place. GeocodeRaises (PyException ''Service timed out'')),
      load = (\<lambda>path. Inr clf)\<rparr>"

section \<open>A run that completes\<close>

text \<open>
  A prediction run is a run with the button pressed in which the classifier loads and
  its calls return. Such a run reaches the end of the script with these variables.
\<close>

lemma run_completes:
  assumes "predict_btn f"
    and "load env MODEL_PATH = Inr clf"
    and "predict clf (input_data f) = Inr p"
    and "snd (confidence_of clf (input_data f)) = Inr c"
  shows "run_result (app env f) =
           Inr (Some \<lparr>v_prediction = p, v_confidence = c,
                       v_tips = fst (health_tips f p), v_learn_more = snd (health_tips f p),
                       v_report = report_text f p c (fst (health_tips f p))
                                    (snd (health_tips f p))\<rparr>)"
  using assms
  by (cases "confidence_of clf (input_data f)")
     (simp add: app_def predict_block_def Let_def split: prod.splits)

lemma health_tips_shape:
  "fst (health_tips f p) =
     (if hb f < 12 then [''Increase iron-rich foods (spinach, beans, red meat).''] else [])
     @ (if green_pixel f > 40
        then [''Stay hydrated; high green pixel may indicate plasma presence.''] else [])
     @ (if p = 1
        then [''Consult your doctor for supplements if needed.'', ''Get regular checkups.'']
        else [''Maintain a balanced diet.'', ''Exercise regularly.'', ''Get enough sleep.'',
              ''Have regular health checkups.''])"
  by (simp add: health_tips_def Let_def)

lemma health_tips_link:
  "snd (health_tips f p) =
     (if p = 1
      then ''[Learn more about anaemia (WHO)](https://www.who.int/news-room/fact-sheets/detail/anaemia)''
      else ''[General health tips (Mayo Clinic)](https://www.mayoclinic.org/healthy-lifestyle)'')"
  by (simp add: health_tips_def Let_def)

lemma example_confidence:
  "snd (confidence_of example_classifier data) =
     Inr (Some (max (to_double (82 / 100)) (to_double (18 / 100))))"
  by (simp add: confidence_of_def example_classifier_def np_max_def)

lemma plain_confidence: "snd (confidence_of plain_classifier data) = Inr None"
  by (simp add: confidence_of_def plain_classifier_def)

section \<open>The health tips\<close>

text \<open>
  C2. In every prediction run the list of tips contains the tip about iron-rich foods
  if the hemoglobin level is below 12, and does not contain it if the level is 12 or
  more.
\<close>

theorem iron_tip_iff_low_hemoglobin:
  assumes "predict_btn f"
    and "load env MODEL_PATH = Inr clf"
    and "predict clf (input_data f) = Inr p"
    and "snd (confidence_of clf (input_data f)) = Inr c"
  shows "\<exists>vars. run_result (app env f) = Inr (Some vars)
           \<and> (hb f < 12 \<longrightarrow>
                ''Increase iron-rich foods (spinach, beans, red meat).'' \<in> set (v_tips vars))
           \<and> (12 \<le> hb f \<longrightarrow>
                ''Increase iron-rich foods (spinach, beans, red meat).'' \<notin> set (v_tips vars))"
  by (simp add: run_completes [OF assms] health_tips_shape)

theorem iron_tip_witness:
  "hb example_form < 12
   \<and> (\<exists>vars. run_result (app (example_environment example_classifier) example_form)
               = Inr (Some vars)
            \<and> ''Increase iron-rich foods (spinach, beans, red meat).'' \<in> set (v_tips vars))
   \<and> 12 \<le> hb (example_form\<lparr>hb := 14\<rparr>)
   \<and> (\<exists>vars. run_result (app (example_environment example_classifier)
                              (example_form\<lparr>hb := 14\<rparr>)) = Inr (Some vars)
            \<and> ''Increase iron-rich foods (spinach, beans, red meat).'' \<notin> set (v_tips vars))"
proof -
  let ?env = "example_environment example_classifier"
  have btn: "predict_btn example_form" "predict_btn (example_form\<lparr>hb := 14\<rparr>)"
    by (simp_all add: example_form_def)
  have ld: "load ?env MODEL_PATH = Inr example_classifier"
    by (simp add: example_environment_def)
  have pr: "predict example_classifier data = Inr 1" for data
    by (simp add: example_classifier_def)
  have low: "hb example_form < 12" and high: "12 \<le> hb (example_form\<lparr>hb := 14\<rparr>)"
    by (simp_all add: example_form_def)
  from iron_tip_iff_low_hemoglobin [OF btn(1) ld pr example_confidence]
       iron_tip_iff_low_hemoglobin [OF btn(2) ld pr example_confidence] low high
  show ?thesis by blast
qed

text \<open>
  C3. In every prediction run the list of tips contains the hydration tip if the
  percentage of green pixels is above 40, and does not contain it if the percentage is
  40 or less.
\<close>

theorem hydration_tip_iff_high_green:
  assumes "predict_btn f"
    and "load env MODEL_PATH = Inr clf"
    and "predict clf (input_data f) = Inr p"
    and "snd (confidence_of clf (input_data f)) = Inr c"
  shows "\<exists>vars. run_result (app env f) = Inr (Some vars)
           \<and> (green_pixel f > 40 \<longrightarrow>
                ''Stay hydrated; high green pixel may indicate plasma presence.''
                  \<in> set (v_tips vars))
           \<and> (green_pixel f \<le> 40 \<longrightarrow>
                ''Stay hydrated; high green pixel may indicate plasma presence.''
                  \<notin> set (v_tips vars))"
  by (simp add: run_completes [OF assms] health_tips_shape)

theorem hydration_tip_witness:
  "green_pixel (example_form\<lparr>green_pixel := 55\<rparr>) > 40
   \<and> (\<exists>vars. run_result (app (example_environment plain_classifier)
                              (example_form\<lparr>green_pixel := 55\<rparr>)) = Inr (Some vars)
            \<and> ''Stay hydrated; high green pixel may indicate plasma presence.''
                 \<in> set (v_tips vars))
   \<and> green_pixel example_form \<le> 40
   \<and> (\<exists>vars. run_result (app (example_environment plain_classifier) example_form)
               = Inr (Some vars)
            \<and> ''Stay hydrated; high green pixel may indicate plasma presence.''
                 \<notin> set (v_tips vars))"
proof -
  let ?env = "example_environment plain_classifier"
  have btn: "predict_btn (example_form\<lparr>green_pixel := 55\<rparr>)" "predict_btn example_form"
    by (simp_all add: example_form_def)
  have ld: "load ?env MODEL_PATH = Inr plain_classifier"
    by (simp add: example_environment_def)
  have pr: "predict plain_classifier data = Inr 0" for data
    by (simp add: plain_classifier_def)
  have high: "green_pixel (example_form\<lparr>green_pixel := 55\<rparr>) > 40"
    and low: "green_pixel example_form \<le> 40"
    by (simp_all add: example_form_def)
  from hydration_tip_iff_high_green [OF btn(1) ld pr plain_confidence]
       hydration_tip_iff_high_green [OF btn(2) ld pr plain_confidence] low high
  show ?thesis by blast
qed

text \<open>
  C1. In every prediction run the tips that depend on the label come after the
  threshold tips and are exactly these: for the label Anaemic (prediction 1) the tip to
  consult a doctor and the tip about regular checkups, with the link to the WHO page on
  anaemia; for the label Not Anaemic (any other prediction, 0 in particular) the four
  wellness tips, with the link to the general health tips.
\<close>

theorem label_tips_and_link:
  assumes "predict_btn f"
    and "load env MODEL_PATH = Inr clf"
    and "predict clf (input_data f) = Inr p"
    and "snd (confidence_of clf (input_data f)) = Inr c"
  shows "\<exists>vars threshold_tips. run_result (app env f) = Inr (Some vars)
           \<and> v_prediction vars = p
           \<and> set threshold_tips
               \<subseteq> {''Increase iron-rich foods (spinach, beans, red meat).'',
                   ''Stay hydrated; high green pixel may indicate plasma presence.''}
           \<and> (p = 1 \<longrightarrow>
                v_learn_more vars = ''[Learn more about anaemia (WHO)](https://www.who.int/news-room/fact-sheets/detail/anaemia)''
                \<and> v_tips vars = threshold_tips
                     @ [''Consult your doctor for supplements if needed.'',
                        ''Get regular checkups.''])
           \<and> (p \<noteq> 1 \<longrightarrow>
                v_learn_more vars = ''[General health tips (Mayo Clinic)](https://www.mayoclinic.org/healthy-lifestyle)''
                \<and> v_tips vars = threshold_tips
                     @ [''Maintain a balanced diet.'', ''Exercise regularly.'',
                        ''Get enough sleep.'', ''Have regular health checkups.''])"
proof -
  define vars where
    "vars = \<lparr>v_prediction = p, v_confidence = c,
             v_tips = fst (health_tips f p), v_learn_more = snd (health_tips f p),
             v_report = report_text f p c (fst (health_tips f p))
                          (snd (health_tips f p))\<rparr>"
  define pre where
    "pre = (if hb f < 12
            then [''Increase iron-rich foods (spinach, beans, red meat).''] else [])
         @ (if green_pixel f > 40
            then [''Stay hydrated; high green pixel may indicate plasma presence.'']
            else [])"
  show ?thesis
  proof (intro exI conjI)
    show "run_result (app env f) = Inr (Some vars)"
      unfolding vars_def by (rule run_completes [OF assms])
    show "v_prediction vars = p"
      by (simp add: vars_def)
    show "set pre \<subseteq> {''Increase iron-rich foods (spinach, beans, red meat).'',
                       ''Stay hydrated; high green pixel may indicate plasma presence.''}"
      by (auto simp: pre_def)
    show "p = 1 \<longrightarrow>
            v_learn_more vars = ''[Learn more about anaemia (WHO)](https://www.who.int/news-room/fact-sheets/detail/anaemia)''
            \<and> v_tips vars = pre
                 @ [''Consult your doctor for supplements if needed.'',
                    ''Get regular checkups.'']"
      by (simp add: vars_def pre_def health_tips_shape health_tips_link)
    show "p \<noteq> 1 \<longrightarrow>
            v_learn_more vars = ''[General health tips (Mayo Clinic)](https://www.mayoclinic.org/healthy-lifestyle)''
            \<and> v_tips vars = pre
                 @ [''Maintain a balanced diet.'', ''Exercise regularly.'',
                    ''Get enough sleep.'', ''Have regular health checkups.'']"
      by (simp add: vars_def pre_def health_tips_shape health_tips_link)
  qed
qed

theorem label_tips_witness:
  "(\<exists>vars threshold_tips.
      run_result (app (example_environment example_classifier) example_form) = Inr (Some vars)
      \<and> v_prediction vars = 1
      \<and> v_learn_more vars = ''[Learn more about anaemia (WHO)](https://www.who.int/news-room/fact-sheets/detail/anaemia)''
      \<and> v_tips vars = threshold_tips
           @ [''Consult your doctor for supplements if needed.'', ''Get regular checkups.''])
   \<and> (\<exists>vars threshold_tips.
      run_result (app (example_environment plain_classifier) example_form) = Inr (Some vars)
      \<and> v_prediction vars = 0
      \<and> v_learn_more vars = ''[General health tips (Mayo Clinic)](https://www.mayoclinic.org/healthy-lifestyle)''
      \<and> v_tips vars = threshold_tips
           @ [''Maintain a balanced diet.'', ''Exercise regularly.'',
              ''Get enough sleep.'', ''Have regular health checkups.''])"
proof -
  have btn: "predict_btn example_form"
    by (simp add: example_form_def)
  have ld: "load (example_environment clf) MODEL_PATH = Inr clf" for clf
    by (simp add: example_environment_def)
  have pr1: "predict example_classifier data = Inr 1"
    and pr0: "predict plain_classifier data = Inr 0" for data
    by (simp_all add: example_classifier_def plain_classifier_def)
  from label_tips_and_link [OF btn ld pr1 example_confidence]
       label_tips_and_link [OF btn ld pr0 plain_confidence]
  show ?thesis by (simp only: simp_thms one_neq_zero zero_neq_one) blast
qed

section \<open>The events of a run\<close>

lemma location_input_cases:
  "location_input env f =
     (if location_mode f = LatitudeLongitude
      then ([], Some (latitude_input f), Some (longitude_input f), [])
      else if location_text_input f = [] then ([], None, None, [])
      else (case geocode env (location_text_input f) of
              GeocodeLocation la lo \<Rightarrow>
                ([Geocode (location_text_input f)], Some la, Some lo, location_text_input f)
            | GeocodeNone \<Rightarrow>
                ([Geocode (location_text_input f),
                  Warning ''Could not find the location. Please check your input.''],
                 None, None, location_text_input f)
            | GeocodeRaises e \<Rightarrow>
                ([Geocode (location_text_input f),
                  Warning (''Geocoding error: '' @ exception_str e)],
                 None, None, location_text_input f)))"
  by (cases "location_mode f") (simp_all add: location_input_def Let_def)

lemma run_coordinates:
  "run_latitude (app env f) = fst (snd (location_input env f))"
  "run_longitude (app env f) = fst (snd (snd (location_input env f)))"
  by (simp_all add: app_def Let_def split: prod.splits sum.splits)

lemma run_result_block:
  "run_result (app env f) =
     (if predict_btn f
      then map_sum id Some (snd (predict_block env f (run_latitude (app env f))
                                   (run_longitude (app env f))))
      else Inr None)"
  by (simp add: app_def Let_def split: prod.splits sum.splits)

lemma run_events_block:
  "run_events (app env f) =
     [Markdown ''---'', Markdown (''### '' @ round_pushpin @ '' Patient Location'')]
     @ fst (location_input env f)
     @ input_summary f (run_latitude (app env f)) (run_longitude (app env f))
         (snd (snd (snd (location_input env f))))
     @ (if predict_btn f
        then fst (predict_block env f (run_latitude (app env f)) (run_longitude (app env f)))
             @ (case snd (predict_block env f (run_latitude (app env f))
                            (run_longitude (app env f))) of
                  Inl e \<Rightarrow> []
                | Inr vars \<Rightarrow> footer)
        else footer)"
  by (simp add: app_def Let_def split: prod.splits sum.splits)

lemma block_result_no_location:
  "snd (predict_block env f la lo) = snd (predict_block env f None None)"
  by (simp add: predict_block_def Let_def split: prod.splits sum.splits)

lemma block_events_completed:
  assumes "load env MODEL_PATH = Inr clf"
    and "predict clf (input_data f) = Inr p"
    and "snd (confidence_of clf (input_data f)) = Inr c"
  shows "predict_block env f la lo =
           ([Load MODEL_PATH, Predict (input_data f)]
              @ fst (confidence_of clf (input_data f))
              @ feedback p c
              @ tips_section (fst (health_tips f p)) (snd (health_tips f p))
              @ download_report (report_text f p c (fst (health_tips f p))
                                   (snd (health_tips f p)))
              @ map_card la lo,
            Inr \<lparr>v_prediction = p, v_confidence = c,
                 v_tips = fst (health_tips f p), v_learn_more = snd (health_tips f p),
                 v_report = report_text f p c (fst (health_tips f p))
                              (snd (health_tips f p))\<rparr>)"
  using assms
  by (cases "confidence_of clf (input_data f)")
     (simp add: predict_block_def Let_def split: prod.splits)

lemma shown_events_no_call [simp]:
  "filter is_classifier_call (fst (location_input env f)) = []"
  "filter is_classifier_call (input_summary f la lo txt) = []"
  "filter is_classifier_call (feedback p c) = []"
  "filter is_classifier_call (tips_section ts link) = []"
  "filter is_classifier_call (download_report data) = []"
  "filter is_classifier_call (map_card la lo) = []"
  "filter is_classifier_call footer = []"
  by (simp_all add: location_input_cases input_summary_def feedback_def tips_section_def
        download_report_def map_card_def footer_def
        split: option.splits geocode_result.splits)

lemma confidence_calls:
  "filter is_classifier_call (fst (confidence_of clf data)) =
     (case predict_proba clf of None \<Rightarrow> [] | Some pp \<Rightarrow> [PredictProba data])"
  by (simp add: confidence_of_def split: option.splits sum.splits)

lemma block_calls:
  assumes "load env MODEL_PATH = Inr clf"
  shows "filter is_classifier_call (fst (predict_block env f la lo)) =
           Predict (input_data f)
           # (case predict clf (input_data f) of
                Inl e \<Rightarrow> []
              | Inr p \<Rightarrow> (case predict_proba clf of
                           None \<Rightarrow> []
                         | Some pp \<Rightarrow> [PredictProba (input_data f)]))"
proof (cases "predict clf (input_data f)")
  case (Inl e)
  with assms show ?thesis
    by (simp add: predict_block_def)
next
  case (Inr p)
  obtain calls r where c: "confidence_of clf (input_data f) = (calls, r)"
    by (cases "confidence_of clf (input_data f)")
  have "filter is_classifier_call calls =
          (case predict_proba clf of None \<Rightarrow> [] | Some pp \<Rightarrow> [PredictProba (input_data f)])"
    using confidence_calls [of clf "input_data f"] c by simp
  with assms Inr c show ?thesis
    by (cases r) (simp_all add: predict_block_def Let_def split: prod.splits)
qed

lemma block_calls_any:
  "e \<in> set (fst (predict_block env f la lo)) \<Longrightarrow> is_classifier_call e
     \<Longrightarrow> e = Predict (input_data f) \<or> e = PredictProba (input_data f)"
proof (cases "load env MODEL_PATH")
  case (Inl x)
  assume "e \<in> set (fst (predict_block env f la lo))" "is_classifier_call e"
  with Inl show ?thesis
    by (auto simp: predict_block_def)
next
  case (Inr clf)
  assume "e \<in> set (fst (predict_block env f la lo))" "is_classifier_call e"
  then have "e \<in> set (filter is_classifier_call (fst (predict_block env f la lo)))"
    by simp
  then show ?thesis
    unfolding block_calls [OF Inr]
    by (auto split: sum.splits option.splits)
qed

section \<open>The classifier's input\<close>

text \<open>
  C7. The record passed to the classifier is the frame of five columns assembled from
  the form, in the order sex, red, green, blue, hemoglobin, the sex encoded as 0 or 1:
  every call of \<open>predict\<close> or \<open>predict_proba\<close> in any run passes this frame, and a run
  with the button pressed and the classifier loaded calls \<open>predict\<close> with it, and then
  \<open>predict_proba\<close> with it when \<open>predict\<close> has returned and the attribute exists.
\<close>

theorem classifier_input_schema:
  fixes f :: form and env :: environment
  defines "record \<equiv>
    [(''Sex'', IntCell (if sex f = M then 0 else 1)),
     (''%Red Pixel'', FloatCell (red_pixel f)),
     (''%Green pixel'', FloatCell (green_pixel f)),
     (''%Blue pixel'', FloatCell (blue_pixel f)),
     (''Hb'', FloatCell (hb f))]"
  shows "(\<forall>data. Predict data \<in> set (run_events (app env f)) \<longrightarrow> data = record)
       \<and> (\<forall>data. PredictProba data \<in> set (run_events (app env f)) \<longrightarrow> data = record)
       \<and> (predict_btn f \<and> load env MODEL_PATH = Inr clf \<longrightarrow>
            filter is_classifier_call (run_events (app env f)) =
              Predict record
              # (case predict clf record of
                   Inl e \<Rightarrow> []
                 | Inr p \<Rightarrow> (case predict_proba clf of
                              None \<Rightarrow> []
                            | Some pp \<Rightarrow> [PredictProba record])))"
proof -
  have rec: "input_data f = record"
    by (simp add: input_data_def record_def sex_encoded_def)
  have calls: "filter is_classifier_call (run_events (app env f)) =
      (if predict_btn f
       then filter is_classifier_call
              (fst (predict_block env f (run_latitude (app env f)) (run_longitude (app env f))))
       else [])"
    by (simp add: run_events_block split: sum.splits)
  have any: "e = Predict record \<or> e = PredictProba record"
    if "e \<in> set (run_events (app env f))" "is_classifier_call e" for e
  proof -
    from that have "e \<in> set (filter is_classifier_call (run_events (app env f)))"
      by simp
    then have "predict_btn f \<and> e \<in> set (fst (predict_block env f (run_latitude (app env f))
                                               (run_longitude (app env f))))"
      unfolding calls by (simp split: if_splits)
    with that(2) show ?thesis
      using block_calls_any [of e env f] unfolding rec by blast
  qed
  have "\<forall>data. Predict data \<in> set (run_events (app env f)) \<longrightarrow> data = record"
    using any by fastforce
  moreover have "\<forall>data. PredictProba data \<in> set (run_events (app env f)) \<longrightarrow> data = record"
    using any by fastforce
  moreover have "predict_btn f \<and> load env MODEL_PATH = Inr clf \<longrightarrow>
      filter is_classifier_call (run_events (app env f)) =
        Predict record
        # (case predict clf record of
             Inl e \<Rightarrow> []
           | Inr p \<Rightarrow> (case predict_proba clf of
                        None \<Rightarrow> []
                      | Some pp \<Rightarrow> [PredictProba record]))"
    using calls block_calls [of env clf f] unfolding rec by simp
  ultimately show ?thesis by blast
qed

theorem classifier_input_witness:
  "predict_btn example_form
   \<and> load (example_environment example_classifier) MODEL_PATH = Inr example_classifier
   \<and> filter is_classifier_call
        (run_events (app (example_environment example_classifier) example_form)) =
       [Predict [(''Sex'', IntCell 1), (''%Red Pixel'', FloatCell 45),
                 (''%Green pixel'', FloatCell 30), (''%Blue pixel'', FloatCell 25),
                 (''Hb'', FloatCell 10)],
        PredictProba [(''Sex'', IntCell 1), (''%Red Pixel'', FloatCell 45),
                      (''%Green pixel'', FloatCell 30), (''%Blue pixel'', FloatCell 25),
                      (''Hb'', FloatCell 10)]]"
proof -
  have btn: "predict_btn example_form"
    by (simp add: example_form_def)
  have ld: "load (example_environment example_classifier) MODEL_PATH = Inr example_classifier"
    by (simp add: example_environment_def)
  from classifier_input_schema [of "example_environment example_classifier" example_form
         example_classifier] btn ld
  have "filter is_classifier_call
          (run_events (app (example_environment example_classifier) example_form)) =
        [Predict [(''Sex'', IntCell 1), (''%Red Pixel'', FloatCell 45),
                  (''%Green pixel'', FloatCell 30), (''%Blue pixel'', FloatCell 25),
                  (''Hb'', FloatCell 10)],
         PredictProba [(''Sex'', IntCell 1), (''%Red Pixel'', FloatCell 45),
                       (''%Green pixel'', FloatCell 30), (''%Blue pixel'', FloatCell 25),
                       (''Hb'', FloatCell 10)]]"
    by (simp add: example_form_def example_classifier_def)
  with btn ld show ?thesis by simp
qed

section \<open>The location\<close>

lemma shown_events_no_geocode:
  "Geocode place \<notin> set (input_summary f la lo txt)"
  "Geocode place \<notin> set (fst (predict_block env f la lo))"
  "Geocode place \<notin> set footer"
  by (auto simp: input_summary_def predict_block_def confidence_of_def feedback_def
        tips_section_def download_report_def map_card_def footer_def Let_def
        split: option.splits sum.splits prod.splits if_splits)

lemma shown_events_no_warning:
  "Warning msg \<notin> set (input_summary f la lo txt)"
  "Warning msg \<notin> set (fst (predict_block env f la lo))"
  "Warning msg \<notin> set footer"
  by (auto simp: input_summary_def predict_block_def confidence_of_def feedback_def
        tips_section_def download_report_def map_card_def footer_def Let_def
        split: option.splits sum.splits prod.splits if_splits)

lemma run_geocode_events:
  "Geocode place \<in> set (run_events (app env f))
     \<longleftrightarrow> Geocode place \<in> set (fst (location_input env f))"
  using shown_events_no_geocode [of place]
  by (auto simp: run_events_block split: sum.splits)

lemma run_warning_events:
  "Warning msg \<in> set (run_events (app env f))
     \<longleftrightarrow> Warning msg \<in> set (fst (location_input env f))"
  using shown_events_no_warning [of msg]
  by (auto simp: run_events_block split: sum.splits)

lemma shown_events_no_warning_filter [simp]:
  "filter is_warning (input_summary f la lo txt) = []"
  "filter is_warning (fst (predict_block env f la lo)) = []"
  "filter is_warning footer = []"
  using shown_events_no_warning
  by (auto simp: filter_empty_conv elim!: is_warning.elims)

lemma run_warnings:
  "filter is_warning (run_events (app env f)) = filter is_warning (fst (location_input env f))"
  by (simp add: run_events_block split: sum.splits)

lemma run_download_event:
  assumes "predict_btn f"
    and "load env MODEL_PATH = Inr clf"
    and "predict clf (input_data f) = Inr p"
    and "snd (confidence_of clf (input_data f)) = Inr c"
  shows "DownloadButton (down_arrow @ '' Download Report'')
           (report_text f p c (fst (health_tips f p)) (snd (health_tips f p)))
           ''anaemia_report.txt'' ''text/plain'' \<in> set (run_events (app env f))"
  using assms(1)
  by (simp add: run_events_block block_events_completed [OF assms(2-4)] download_report_def)

lemma run_map_event:
  assumes "predict_btn f"
    and "load env MODEL_PATH = Inr clf"
    and "predict clf (input_data f) = Inr p"
    and "snd (confidence_of clf (input_data f)) = Inr c"
    and "run_latitude (app env f) = Some la"
    and "run_longitude (app env f) = Some lo"
  shows "MapPoint la lo \<in> set (run_events (app env f))"
  using assms(1,5,6)
  by (simp add: run_events_block block_events_completed [OF assms(2-4)] map_card_def)

text \<open>
  C8. In the mode latitude/longitude the two numbers entered are the coordinates of the
  run, whatever they are, (0, 0) included; the geocoder is not called; and a prediction
  run puts that point on the map.
\<close>

theorem explicit_coordinates_accepted:
  assumes "location_mode f = LatitudeLongitude"
  shows "run_latitude (app env f) = Some (latitude_input f)
       \<and> run_longitude (app env f) = Some (longitude_input f)
       \<and> (\<forall>place. Geocode place \<notin> set (run_events (app env f)))
       \<and> (predict_btn f \<and> load env MODEL_PATH = Inr clf
            \<and> predict clf (input_data f) = Inr p
            \<and> snd (confidence_of clf (input_data f)) = Inr c \<longrightarrow>
          MapPoint (latitude_input f) (longitude_input f) \<in> set (run_events (app env f)))"
proof -
  have la: "run_latitude (app env f) = Some (latitude_input f)"
    and lo: "run_longitude (app env f) = Some (longitude_input f)"
    using assms by (simp_all add: run_coordinates location_input_cases)
  have "Geocode place \<notin> set (run_events (app env f))" for place
    using assms by (simp add: run_geocode_events location_input_cases)
  with la lo show ?thesis
    by (auto intro: run_map_event)
qed

theorem explicit_coordinates_witness:
  "location_mode (example_form\<lparr>location_mode := LatitudeLongitude\<rparr>) = LatitudeLongitude
   \<and> run_latitude (app (example_environment plain_classifier)
                       (example_form\<lparr>location_mode := LatitudeLongitude\<rparr>)) = Some 0
   \<and> run_longitude (app (example_environment plain_classifier)
                        (example_form\<lparr>location_mode := LatitudeLongitude\<rparr>)) = Some 0
   \<and> (\<forall>place. Geocode place \<notin> set (run_events (app (example_environment plain_classifier)
                                         (example_form\<lparr>location_mode := LatitudeLongitude\<rparr>))))
   \<and> MapPoint 0 0 \<in> set (run_events (app (example_environment plain_classifier)
                                  (example_form\<lparr>location_mode := LatitudeLongitude\<rparr>)))"
proof -
  let ?f = "example_form\<lparr>location_mode := LatitudeLongitude\<rparr>"
  have mode: "location_mode ?f = LatitudeLongitude"
    by simp
  have run: "predict_btn ?f"
    "load (example_environment plain_classifier) MODEL_PATH = Inr plain_classifier"
    "predict plain_classifier (input_data ?f) = Inr 0"
    by (simp_all add: example_form_def example_environment_def plain_classifier_def)
  have zero: "latitude_input ?f = 0" "longitude_input ?f = 0"
    by (simp_all add: example_form_def)
  from explicit_coordinates_accepted [OF mode, of "example_environment plain_classifier"
         plain_classifier 0 None] run plain_confidence [of "input_data ?f"] zero mode
  show ?thesis by simp
qed

text \<open>
  C10. In the mode country/city with the text box left empty the geocoder is not
  called and no warning is shown; the coordinates stay undefined, and a prediction run
  still ends with its prediction, its tips and the report offered for download.
\<close>

theorem empty_location_text_skips_geocoder:
  assumes "location_mode f = CountryCity"
    and "location_text_input f = []"
  shows "run_latitude (app env f) = None
       \<and> run_longitude (app env f) = None
       \<and> (\<forall>place. Geocode place \<notin> set (run_events (app env f)))
       \<and> (\<forall>msg. Warning msg \<notin> set (run_events (app env f)))
       \<and> (predict_btn f \<and> load env MODEL_PATH = Inr clf
            \<and> predict clf (input_data f) = Inr p
            \<and> snd (confidence_of clf (input_data f)) = Inr c \<longrightarrow>
          (\<exists>vars. run_result (app env f) = Inr (Some vars)
             \<and> v_prediction vars = p
             \<and> v_tips vars = fst (health_tips f p)
             \<and> DownloadButton (down_arrow @ '' Download Report'') (v_report vars)
                  ''anaemia_report.txt'' ''text/plain'' \<in> set (run_events (app env f))))"
proof -
  have "run_latitude (app env f) = None" "run_longitude (app env f) = None"
    using assms by (simp_all add: run_coordinates location_input_cases)
  moreover have "Geocode place \<notin> set (run_events (app env f))" for place
    using assms by (simp add: run_geocode_events location_input_cases)
  moreover have "Warning msg \<notin> set (run_events (app env f))" for msg
    using assms by (simp add: run_warning_events location_input_cases)
  ultimately show ?thesis
    by (auto simp: run_completes dest: run_download_event)
qed

theorem empty_location_text_witness:
  "location_mode (example_form\<lparr>location_text_input := []\<rparr>) = CountryCity
   \<and> location_text_input (example_form\<lparr>location_text_input := []\<rparr>) = []
   \<and> run_latitude (app (example_environment plain_classifier)
                       (example_form\<lparr>location_text_input := []\<rparr>)) = None
   \<and> run_longitude (app (example_environment plain_classifier)
                        (example_form\<lparr>location_text_input := []\<rparr>)) = None
   \<and> (\<forall>place. Geocode place \<notin> set (run_events (app (example_environment plain_classifier)
                                         (example_form\<lparr>location_text_input := []\<rparr>))))
   \<and> (\<forall>msg. Warning msg \<notin> set (run_events (app (example_environment plain_classifier)
                                       (example_form\<lparr>location_text_input := []\<rparr>))))
   \<and> (\<exists>vars. run_result (app (example_environment plain_classifier)
                              (example_form\<lparr>location_text_input := []\<rparr>)) = Inr (Some vars)
         \<and> v_prediction vars = 0)"
proof -
  let ?f = "example_form\<lparr>location_text_input := []\<rparr>"
  have loc: "location_mode ?f = CountryCity" "location_text_input ?f = []"
    by (simp_all add: example_form_def)
  have run: "predict_btn ?f"
    "load (example_environment plain_classifier) MODEL_PATH = Inr plain_classifier"
    "predict plain_classifier (input_data ?f) = Inr 0"
    by (simp_all add: example_form_def example_environment_def plain_classifier_def)
  from empty_location_text_skips_geocoder [OF loc, of "example_environment plain_classifier"
         plain_classifier 0 None] run plain_confidence [of "input_data ?f"] loc
  show ?thesis by auto
qed

text \<open>
  C6. When the text box holds a place name and the geocoder raises or finds nothing,
  the run shows one warning and nothing else of the failure: the coordinates stay
  undefined, the run does not end with the geocoder's exception, and a prediction run
  still ends with its prediction, its tips and the report offered for download.
\<close>

theorem geocoding_failure_is_a_warning:
  assumes "location_mode f = CountryCity"
    and "location_text_input f \<noteq> []"
    and "geocode env (location_text_input f) = GeocodeNone
         \<or> geocode env (location_text_input f) = GeocodeRaises e"
  shows "run_latitude (app env f) = None
       \<and> run_longitude (app env f) = None
       \<and> filter is_warning (run_events (app env f)) =
           [Warning (case geocode env (location_text_input f) of
                       GeocodeRaises e \<Rightarrow> ''Geocoding error: '' @ exception_str e
                     | _ \<Rightarrow> ''Could not find the location. Please check your input.'')]
       \<and> (\<not> predict_btn f \<longrightarrow> run_result (app env f) = Inr None)
       \<and> (predict_btn f \<and> load env MODEL_PATH = Inr clf
            \<and> predict clf (input_data f) = Inr p
            \<and> snd (confidence_of clf (input_data f)) = Inr c \<longrightarrow>
          (\<exists>vars. run_result (app env f) = Inr (Some vars)
             \<and> v_prediction vars = p
             \<and> v_tips vars = fst (health_tips f p)
             \<and> DownloadButton (down_arrow @ '' Download Report'') (v_report vars)
                  ''anaemia_report.txt'' ''text/plain'' \<in> set (run_events (app env f))))"
proof -
  have "run_latitude (app env f) = None" "run_longitude (app env f) = None"
    using assms by (auto simp: run_coordinates location_input_cases)
  moreover have "filter is_warning (run_events (app env f)) =
      [Warning (case geocode env (location_text_input f) of
                  GeocodeRaises e \<Rightarrow> ''Geocoding error: '' @ exception_str e
                | _ \<Rightarrow> ''Could not find the location. Please check your input.'')]"
    using assms by (auto simp: run_warnings location_input_cases)
  moreover have "\<not> predict_btn f \<longrightarrow> run_result (app env f) = Inr None"
    by (simp add: run_result_block)
  ultimately show ?thesis
    by (auto simp: run_completes dest: run_download_event)
qed

theorem geocoding_failure_witness:
  "(\<exists>vars. run_latitude (app (example_environment example_classifier) example_form) = None
      \<and> filter is_warning (run_events (app (example_environment example_classifier)
                                         example_form)) =
          [Warning ''Could not find the location. Please check your input.'']
      \<and> run_result (app (example_environment example_classifier) example_form)
          = Inr (Some vars)
      \<and> v_prediction vars = 1)
   \<and> (\<exists>vars. run_latitude (app (failing_environment example_classifier) example_form) = None
      \<and> filter is_warning (run_events (app (failing_environment example_classifier)
                                         example_form)) =
          [Warning ''Geocoding error: Service timed out'']
      \<and> run_result (app (failing_environment example_classifier) example_form)
          = Inr (Some vars)
      \<and> v_prediction vars = 1)"
proof -
  have loc: "location_mode example_form = CountryCity" "location_text_input example_form \<noteq> []"
    by (simp_all add: example_form_def)
  have none: "geocode (example_environment example_classifier) place = GeocodeNone"
    and raises: "geocode (failing_environment example_classifier) place
                   = GeocodeRaises (PyException ''Service timed out'')" for place
    by (simp_all add: example_environment_def failing_environment_def)
  have run: "predict_btn example_form"
    "load (example_environment example_classifier) MODEL_PATH = Inr example_classifier"
    "load (failing_environment example_classifier) MODEL_PATH = Inr example_classifier"
    "predict example_classifier (input_data example_form) = Inr 1"
    by (simp_all add: example_form_def example_environment_def failing_environment_def
          example_classifier_def)
  from geocoding_failure_is_a_warning [OF loc disjI1, OF none,
         of example_classifier 1 "Some (max (to_double (82 / 100)) (to_double (18 / 100)))"]
       geocoding_failure_is_a_warning [OF loc disjI2, OF raises,
         of example_classifier 1 "Some (max (to_double (82 / 100)) (to_double (18 / 100)))"]
       run example_confidence [of "input_data example_form"] none raises
  show ?thesis by auto
qed

section \<open>The location and the prediction\<close>

lemma block_without_map:
  "fst (predict_block env f la lo) =
     fst (predict_block env f None None)
     @ (case snd (predict_block env f None None) of
          Inl e \<Rightarrow> []
        | Inr vars \<Rightarrow> map_card la lo)"
  by (simp add: predict_block_def map_card_def Let_def split: prod.splits sum.splits)

lemma block_same_inputs:
  assumes "sex f' = sex f"
    and "red_pixel f' = red_pixel f"
    and "green_pixel f' = green_pixel f"
    and "blue_pixel f' = blue_pixel f"
    and "hb f' = hb f"
    and "load env' = load env"
  shows "predict_block env' f' None None = predict_block env f None None"
proof -
  have data: "input_data f' = input_data f"
    using assms by (simp add: input_data_def sex_encoded_def)
  have tips: "health_tips f' p = health_tips f p" for p
    using assms by (simp add: health_tips_def)
  have rep: "report_text f' p c ts link = report_text f p c ts link" for p c ts link
    using assms by (simp add: report_text_def)
  show ?thesis
    unfolding predict_block_def data tips rep assms(6) by (rule refl)
qed

lemma shown_events_no_download [simp]:
  "filter is_download (fst (location_input env f)) = []"
  "filter is_download (input_summary f la lo place) = []"
  "filter is_download (map_card la lo) = []"
  "filter is_download footer = []"
  by (simp_all add: location_input_cases input_summary_def map_card_def footer_def
        split: option.splits geocode_result.splits)

text \<open>
  C9. The location has no effect on the prediction: two runs that agree on the sex, the
  three percentages, the hemoglobin level, the button and the classifier on disk, and
  differ in anything about the location (mode, text, coordinates, geocoder), pass the
  same frame to the classifier in the same calls, end with the same prediction,
  confidence, tips, link and report text, and offer the same report for download.
\<close>

theorem location_has_no_effect:
  assumes "sex f' = sex f"
    and "red_pixel f' = red_pixel f"
    and "green_pixel f' = green_pixel f"
    and "blue_pixel f' = blue_pixel f"
    and "hb f' = hb f"
    and "predict_btn f' = predict_btn f"
    and "load env' = load env"
  shows "input_data f' = input_data f
       \<and> run_result (app env' f') = run_result (app env f)
       \<and> filter is_classifier_call (run_events (app env' f'))
           = filter is_classifier_call (run_events (app env f))
       \<and> filter is_download (run_events (app env' f'))
           = filter is_download (run_events (app env f))"
proof -
  have same: "predict_block env' f' None None = predict_block env f None None"
    using assms(1-5,7) by (rule block_same_inputs)
  have "input_data f' = input_data f"
    using assms by (simp add: input_data_def sex_encoded_def)
  moreover have "run_result (app env' f') = run_result (app env f)"
    using assms(6) same
    by (simp add: run_result_block block_result_no_location [of _ _ "run_latitude _"])
  moreover have "filter P (run_events (app env' f')) = filter P (run_events (app env f))"
    if "\<And>env f la lo place. filter P (fst (location_input env f)) = []"
       "\<And>f la lo place. filter P (input_summary f la lo place) = []"
       "\<And>la lo. filter P (map_card la lo) = []"
       "filter P [Markdown ''---'', Markdown (''### '' @ round_pushpin @ '' Patient Location'')]
          = []"
    for P
    using assms(6) same that
    by (simp add: run_events_block block_without_map [of _ _ "run_latitude _"]
          block_result_no_location [of _ _ "run_latitude _"] split: sum.splits)
  ultimately show ?thesis
    by simp
qed

theorem location_has_no_effect_witness:
  "input_data (example_form\<lparr>location_mode := LatitudeLongitude, latitude_input := - 1,
                             longitude_input := 37\<rparr>) = input_data example_form
   \<and> run_result (app (failing_environment example_classifier)
                    (example_form\<lparr>location_mode := LatitudeLongitude, latitude_input := - 1,
                                   longitude_input := 37\<rparr>))
       = run_result (app (example_environment example_classifier) example_form)
   \<and> filter is_download (run_events (app (failing_environment example_classifier)
                    (example_form\<lparr>location_mode := LatitudeLongitude, latitude_input := - 1,
                                   longitude_input := 37\<rparr>)))
       = filter is_download (run_events (app (example_environment example_classifier)
                                           example_form))
   \<and> run_latitude (app (failing_environment example_classifier)
                    (example_form\<lparr>location_mode := LatitudeLongitude, latitude_input := - 1,
                                   longitude_input := 37\<rparr>)) = Some (- 1)
   \<and> run_latitude (app (example_environment example_classifier) example_form) = None"
proof -
  let ?f = "example_form\<lparr>location_mode := LatitudeLongitude, latitude_input := - 1,
                          longitude_input := 37\<rparr>"
  have "load (failing_environment example_classifier)
          = load (example_environment example_classifier)"
    by (simp add: failing_environment_def example_environment_def)
  from location_has_no_effect [of ?f example_form "failing_environment example_classifier"
         "example_environment example_classifier", OF _ _ _ _ _ _ this]
  have "input_data ?f = input_data example_form
      \<and> run_result (app (failing_environment example_classifier) ?f)
          = run_result (app (example_environment example_classifier) example_form)
      \<and> filter is_download (run_events (app (failing_environment example_classifier) ?f))
          = filter is_download (run_events (app (example_environment example_classifier)
                                              example_form))"
    by simp
  moreover have "run_latitude (app (failing_environment example_classifier) ?f) = Some (- 1)"
    "run_latitude (app (example_environment example_classifier) example_form) = None"
    by (simp_all add: run_coordinates location_input_cases example_form_def
          example_environment_def)
  ultimately show ?thesis by simp
qed

section \<open>Facts about the float formats\<close>







section \<open>The report\<close>








section \<open>The specification's example\<close>



















section \<open>The confidence\<close>








end
